theory Spec2Isabelle
  imports Main
begin

section \<open>Values, exceptions and the Python built-ins the scripts rely on\<close>

text \<open>
  The scripts work on decoded JSON: \<open>None\<close>, booleans, integers, strings, lists and
  dictionaries. A dictionary is an association list in insertion order whose keys are
  distinct; a lookup takes the first binding. Python integers are unbounded.
  JSON numbers with a fraction or an exponent (Python floats) are not represented.
  Strings are lists of 8-bit characters; the case and whitespace functions below are
  the ASCII parts of \<open>str.lower\<close>, \<open>str.strip\<close> and \<open>int\<close>, and leave every
  other character alone.
\<close>

datatype json =
    JNull
  | JBool bool
  | JInt int
  | JStr string
  | JList "json list"
  | JDict "(string \<times> json) list"

text \<open>
  The exceptions that can leave the modelled functions. \<open>HTTPError\<close> is the exception
  of \<open>requests\<close> raised by \<open>raise_for_status\<close>; it carries the status code and
  the text that \<open>str\<close> gives for it. \<open>RequestError\<close> stands for every other failure
  of a request (connection, timeout, undecodable body), none of which is an
  \<open>HTTPError\<close>.
\<close>

datatype exn =
    HTTPError nat string
  | RequestError string
  | AttributeError
  | TypeError
  | ValueError
  | IndexError
  | KeyError
  | RuntimeError string

definition exn_bind :: "exn + 'a \<Rightarrow> ('a \<Rightarrow> exn + 'b) \<Rightarrow> exn + 'b" where
  "exn_bind m f = (case m of Inl e \<Rightarrow> Inl e | Inr v \<Rightarrow> f v)"

text \<open>Truth value of an object, as \<open>if x\<close>, \<open>not x\<close> and \<open>x or y\<close> test it.\<close>

fun truthy :: "json \<Rightarrow> bool" where
  "truthy JNull = False"
| "truthy (JBool b) = b"
| "truthy (JInt i) = (i \<noteq> 0)"
| "truthy (JStr s) = (s \<noteq> [])"
| "truthy (JList xs) = (xs \<noteq> [])"
| "truthy (JDict kvs) = (kvs \<noteq> [])"

text \<open>\<open>x or y\<close>\<close>

definition py_or :: "json \<Rightarrow> json \<Rightarrow> json" where
  "py_or x y = (if truthy x then x else y)"

text \<open>\<open>x.get(key, default)\<close>: only a dictionary has the method.\<close>

fun py_get :: "json \<Rightarrow> string \<Rightarrow> json \<Rightarrow> exn + json" where
  "py_get (JDict kvs) k d = Inr (case map_of kvs k of Some v \<Rightarrow> v | None \<Rightarrow> d)"
| "py_get _ k d = Inl AttributeError"

text \<open>\<open>x.lower()\<close>: only a string has the method.\<close>

definition lower_char :: "char \<Rightarrow> char" where
  "lower_char c =
     (case map_of (zip ''ABCDEFGHIJKLMNOPQRSTUVWXYZ'' ''abcdefghijklmnopqrstuvwxyz'') c of
        Some d \<Rightarrow> d
      | None \<Rightarrow> c)"

definition lower :: "string \<Rightarrow> string" where
  "lower s = map lower_char s"

fun py_lower :: "json \<Rightarrow> exn + string" where
  "py_lower (JStr s) = Inr (lower s)"
| "py_lower _ = Inl AttributeError"

text \<open>The characters that \<open>str.isspace\<close> accepts below 128.\<close>

definition isspace :: "char \<Rightarrow> bool" where
  "isspace c = (c \<in> set [CHR '' '', CHR 0x09, CHR 0x0A, CHR 0x0B, CHR 0x0C, CHR 0x0D,
                          CHR 0x1C, CHR 0x1D, CHR 0x1E, CHR 0x1F])"

definition strip :: "string \<Rightarrow> string" where
  "strip s = rev (dropWhile isspace (rev (dropWhile isspace s)))"

text \<open>\<open>s.replace(" ", "-")\<close>\<close>

definition replace_space_hyphen :: "string \<Rightarrow> string" where
  "replace_space_hyphen s = map (\<lambda>c. if c = CHR '' '' then CHR ''-'' else c) s"

text \<open>\<open>sep.join(xs)\<close> on strings.\<close>

fun join :: "string \<Rightarrow> string list \<Rightarrow> string" where
  "join sep [] = []"
| "join sep [x] = x"
| "join sep (x # y # ys) = x @ sep @ join sep (y # ys)"

subsection \<open>Integers and their decimal text\<close>

definition digit_char :: "nat \<Rightarrow> char" where
  "digit_char d = ''0123456789'' ! (d mod 10)"

function str_nat :: "nat \<Rightarrow> string" where
  "str_nat n = (if n < 10 then [digit_char n] else str_nat (n div 10) @ [digit_char (n mod 10)])"
  by pat_completeness auto
termination
  by (relation "measure id") auto

declare str_nat.simps [simp del]

text \<open>\<open>str(i)\<close> for an integer.\<close>

definition str_int :: "int \<Rightarrow> string" where
  "str_int i = (if i < 0 then CHR ''-'' # str_nat (nat (- i)) else str_nat (nat i))"

definition digit_val :: "char \<Rightarrow> nat option" where
  "digit_val c = map_of (zip ''0123456789'' [0, 1, 2, 3, 4, 5, 6, 7, 8, 9]) c"

text \<open>
  The digits of an integer literal, most significant first, with the single
  underscores that \<open>int\<close> allows between two digits. The accumulator is the value
  read so far; \<open>after_digit\<close> says whether the previous character was a digit.
\<close>

fun int_digits :: "nat \<Rightarrow> bool \<Rightarrow> string \<Rightarrow> nat option" where
  "int_digits acc after_digit [] = (if after_digit then Some acc else None)"
| "int_digits acc after_digit (c # cs) =
     (if c = CHR ''_'' then (if after_digit then int_digits acc False cs else None)
      else (case digit_val c of
              None \<Rightarrow> None
            | Some d \<Rightarrow> int_digits (10 * acc + d) True cs))"

text \<open>\<open>int(s)\<close> for a string: surrounding whitespace, one optional sign, digits.\<close>

definition int_of_string :: "string \<Rightarrow> int option" where
  "int_of_string s =
     (case strip s of
        [] \<Rightarrow> None
      | c # cs \<Rightarrow>
          if c = CHR ''-'' then map_option (\<lambda>n. - int n) (int_digits 0 False cs)
          else if c = CHR ''+'' then map_option int (int_digits 0 False cs)
          else map_option int (int_digits 0 False (c # cs)))"

text \<open>\<open>int(x)\<close>\<close>

fun py_int :: "json \<Rightarrow> exn + int" where
  "py_int (JInt i) = Inr i"
| "py_int (JBool b) = Inr (if b then 1 else 0)"
| "py_int (JStr s) = (case int_of_string s of Some i \<Rightarrow> Inr i | None \<Rightarrow> Inl ValueError)"
| "py_int _ = Inl TypeError"

text \<open>\<open>x != 0\<close>: \<open>False\<close> and \<open>0\<close> are the values equal to \<open>0\<close>.\<close>

definition ne_zero :: "json \<Rightarrow> bool" where
  "ne_zero x = (x \<noteq> JInt 0 \<and> x \<noteq> JBool False)"

section \<open>The duration formatter\<close>

text \<open>\<open>'s' if n != 1 else ''\<close>\<close>

definition plural :: "int \<Rightarrow> string" where
  "plural n = (if n \<noteq> 1 then ''s'' else '''')"

text \<open>\<open>format_seconds_to_human\<close> of \<open>datadog_synthetics_export.py\<close>.\<close>

definition format_seconds_to_human :: "json \<Rightarrow> exn + string" where
  "format_seconds_to_human seconds =
     (if \<not> truthy seconds \<and> ne_zero seconds then Inr ''N/A''
      else (case py_int seconds of
              Inl e \<Rightarrow> (if e = ValueError \<or> e = TypeError then Inr ''N/A'' else Inl e)
            | Inr sec \<Rightarrow>
                if sec = 0 then Inr ''0 seconds''
                else if sec mod 3600 = 0 then
                  (let hours = sec div 3600 in Inr (str_int hours @ '' hour'' @ plural hours))
                else if sec mod 60 = 0 then
                  (let minutes = sec div 60 in Inr (str_int minutes @ '' minute'' @ plural minutes))
                else Inr (str_int sec @ '' seconds'')))"

section \<open>Text of a value\<close>

text \<open>
  \<open>repr\<close> of a string: single quotes unless the string has a single quote and no
  double quote; the quote and the backslash are escaped, tab, newline and return are
  written with their letters, and the other control characters in hexadecimal.
\<close>

definition hex_char :: "nat \<Rightarrow> char" where
  "hex_char d = ''0123456789abcdef'' ! (d mod 16)"

definition escape_char :: "char \<Rightarrow> char \<Rightarrow> string" where
  "escape_char quote c =
     (if c = quote \<or> c = CHR 0x5C then [CHR 0x5C, c]
      else if c = CHR 0x09 then [CHR 0x5C, CHR ''t'']
      else if c = CHR 0x0A then [CHR 0x5C, CHR ''n'']
      else if c = CHR 0x0D then [CHR 0x5C, CHR ''r'']
      else if (of_char c :: nat) < 32 \<or> c = CHR 0x7F then
        [CHR 0x5C, CHR ''x'', hex_char (of_char c div 16), hex_char (of_char c mod 16)]
      else [c])"

definition repr_string :: "string \<Rightarrow> string" where
  "repr_string s =
     (let quote = (if CHR 0x27 \<in> set s \<and> CHR 0x22 \<notin> set s then CHR 0x22 else CHR 0x27)
      in quote # concat (map (escape_char quote) s) @ [quote])"

text \<open>\<open>repr(x)\<close>\<close>

fun py_repr :: "json \<Rightarrow> string" where
  "py_repr JNull = ''None''"
| "py_repr (JBool b) = (if b then ''True'' else ''False'')"
| "py_repr (JInt i) = str_int i"
| "py_repr (JStr s) = repr_string s"
| "py_repr (JList xs) = ''['' @ join '', '' (map py_repr xs) @ '']''"
| "py_repr (JDict kvs) =
     ''{'' @ join '', '' (map (\<lambda>kv. repr_string (fst kv) @ '': '' @ py_repr (snd kv)) kvs) @ ''}''"

text \<open>\<open>str(x)\<close>, which is also what an f-string field inserts for \<open>x\<close>.\<close>

fun py_str :: "json \<Rightarrow> string" where
  "py_str (JStr s) = s"
| "py_str v = py_repr v"

section \<open>Iteration, length and joining\<close>

text \<open>
  The items that \<open>for x in v\<close> visits: the elements of a list, the characters of a
  string, the keys of a dictionary; nothing else is iterable.
\<close>

fun py_iter :: "json \<Rightarrow> exn + json list" where
  "py_iter (JList xs) = Inr xs"
| "py_iter (JStr s) = Inr (map (\<lambda>c. JStr [c]) s)"
| "py_iter (JDict kvs) = Inr (map (\<lambda>kv. JStr (fst kv)) kvs)"
| "py_iter _ = Inl TypeError"

text \<open>\<open>len(v)\<close>\<close>

fun py_len :: "json \<Rightarrow> exn + nat" where
  "py_len (JList xs) = Inr (length xs)"
| "py_len (JStr s) = Inr (length s)"
| "py_len (JDict kvs) = Inr (length kvs)"
| "py_len _ = Inl TypeError"

text \<open>\<open>v[0]\<close>; the keys of a decoded dictionary are strings, so \<open>0\<close> is never one.\<close>

fun py_first :: "json \<Rightarrow> exn + json" where
  "py_first (JList xs) = (case xs of [] \<Rightarrow> Inl IndexError | x # _ \<Rightarrow> Inr x)"
| "py_first (JStr s) = (case s of [] \<Rightarrow> Inl IndexError | c # _ \<Rightarrow> Inr (JStr [c]))"
| "py_first (JDict kvs) = Inl KeyError"
| "py_first _ = Inl TypeError"



section \<open>The identifier resolver\<close>

text \<open>
  \<open>_list_teams_by_keyword\<close> of \<open>GE_Alerts_extract.py\<close>. The parameter
  \<open>team_api\<close> is the request to the team endpoint with \<open>raise_for_status\<close> and
  the decoding of the body: an exception, or the decoded body.
\<close>

definition list_teams_by_keyword :: "(string \<Rightarrow> exn + json) \<Rightarrow> string \<Rightarrow> exn + json" where
  "list_teams_by_keyword team_api keyword =
     exn_bind (team_api keyword) (\<lambda>body.
     exn_bind (py_get body ''data'' (JList [])) (\<lambda>d.
       Inr (py_or d (JList []))))"

text \<open>\<open>keyword.strip().lower().replace(" ", "-")\<close>\<close>

definition synthesized_handle :: "string \<Rightarrow> string" where
  "synthesized_handle keyword = replace_space_hyphen (lower (strip keyword))"

text \<open>
  The loop \<open>for t in teams\<close> of \<open>_extract_team_handle\<close>: \<open>Some handle\<close> when the
  loop returns from the function, \<open>None\<close> when it runs to its end.
\<close>

fun scan_teams :: "string \<Rightarrow> json list \<Rightarrow> exn + json option" where
  "scan_teams keyword [] = Inr None"
| "scan_teams keyword (t # ts) =
     exn_bind (py_get t ''attributes'' (JDict [])) (\<lambda>a.
     exn_bind (py_get (py_or a (JDict [])) ''name'' (JStr '''')) (\<lambda>name.
     exn_bind (py_get (py_or a (JDict [])) ''handle'' (JStr '''')) (\<lambda>handle.
     exn_bind (py_lower name) (\<lambda>n.
     exn_bind (py_lower handle) (\<lambda>h.
       if lower keyword = n \<or> lower keyword = h then Inr (Some handle)
       else scan_teams keyword ts)))))"

text \<open>\<open>_extract_team_handle\<close> of \<open>GE_Alerts_extract.py\<close>.\<close>

definition extract_team_handle :: "(string \<Rightarrow> exn + json) \<Rightarrow> string \<Rightarrow> exn + json" where
  "extract_team_handle team_api keyword =
     exn_bind (list_teams_by_keyword team_api keyword) (\<lambda>teams.
       if \<not> truthy teams then Inr (JStr (synthesized_handle keyword))
       else
         exn_bind (py_iter teams) (\<lambda>ts.
         exn_bind (scan_teams keyword ts) (\<lambda>found.
           case found of
             Some handle \<Rightarrow> Inr handle
           | None \<Rightarrow>
               exn_bind (py_first teams) (\<lambda>t0.
               exn_bind (py_get t0 ''attributes'' (JDict [])) (\<lambda>a.
                 py_get a ''handle'' (JStr (synthesized_handle keyword)))))))"

section \<open>The fallback query engine\<close>

text \<open>The four query strings built from the handle, in the order of the source.\<close>

definition variants :: "json \<Rightarrow> string list" where
  "variants handle =
     [''team:'' @ py_str handle,
      ''team:'' @ [CHR 0x22] @ py_str handle @ [CHR 0x22],
      ''teams:'' @ py_str handle,
      ''teams:'' @ [CHR 0x22] @ py_str handle @ [CHR 0x22]]"

text \<open>
  The candidate list of a decoded search response: \<open>data["data"]["monitors"]\<close>
  when it is there, else \<open>data["monitors"]\<close> when it is there, else the empty list.
\<close>

definition search_candidates :: "json \<Rightarrow> json" where
  "search_candidates data =
     (case data of
        JDict kvs \<Rightarrow>
          (let top = (case map_of kvs ''monitors'' of Some c \<Rightarrow> c | None \<Rightarrow> JList [])
           in case map_of kvs ''data'' of
                Some (JDict inner) \<Rightarrow>
                  (case map_of inner ''monitors'' of Some c \<Rightarrow> c | None \<Rightarrow> top)
              | _ \<Rightarrow> top)
      | _ \<Rightarrow> JList [])"

text \<open>
  The list comprehension that keeps the candidates whose \<open>id\<close> is not \<open>None\<close>
  and projects them to \<open>id\<close> and \<open>name\<close>.
\<close>

fun project_monitors :: "json list \<Rightarrow> exn + json list" where
  "project_monitors [] = Inr []"
| "project_monitors (m # ms) =
     exn_bind (py_get m ''id'' JNull) (\<lambda>i.
       if i \<noteq> JNull then
         exn_bind (py_get m ''name'' JNull) (\<lambda>n.
         exn_bind (project_monitors ms) (\<lambda>rest.
           Inr (JDict [(''id'', i), (''name'', n)] # rest)))
       else project_monitors ms)"

text \<open>
  The body of the \<open>try\<close> block for one query, up to the list \<open>monitors\<close>. The
  parameter \<open>datadog_get\<close> is the request to the search endpoint with the given
  query: an exception, or the decoded body.
\<close>

definition attempt :: "(string \<Rightarrow> exn + json) \<Rightarrow> string \<Rightarrow> exn + json list" where
  "attempt datadog_get q =
     exn_bind (datadog_get q) (\<lambda>data.
     exn_bind (py_iter (py_or (search_candidates data) (JList []))) project_monitors)"

text \<open>What \<open>except HTTPError as e\<close> catches: the status and the text of the error.\<close>

fun http_error :: "exn \<Rightarrow> (nat \<times> string) option" where
  "http_error (HTTPError status msg) = Some (status, msg)"
| "http_error _ = None"

text \<open>
  How the loop over the variants ends: the function returns the monitors, an exception
  leaves the function, or the loop runs to its end with the last caught error, if any.
\<close>

datatype loop_exit =
    Return json
  | Raise exn
  | Exhausted "(nat \<times> string) option"

text \<open>
  The loop \<open>for q in variants\<close> of \<open>find_monitors_for_team\<close>. The second
  component is the list of the queries sent, in the order they were sent.
\<close>

fun variant_loop ::
  "(string \<Rightarrow> exn + json) \<Rightarrow> string list \<Rightarrow> (nat \<times> string) option \<Rightarrow> loop_exit \<times> string list"
where
  "variant_loop datadog_get [] last_err = (Exhausted last_err, [])"
| "variant_loop datadog_get (q # qs) last_err =
     (case attempt datadog_get q of
        Inl e \<Rightarrow>
          (case http_error e of
             Some he \<Rightarrow>
               (let r = variant_loop datadog_get qs (Some he) in (fst r, q # snd r))
           | None \<Rightarrow> (Raise e, [q]))
      | Inr monitors \<Rightarrow>
          if monitors \<noteq> [] then (Return (JList monitors), [q])
          else (let r = variant_loop datadog_get qs last_err in (fst r, q # snd r)))"

text \<open>The message of the \<open>RuntimeError\<close> raised after the loop.\<close>

definition failure_message :: "string \<Rightarrow> json \<Rightarrow> string \<Rightarrow> string" where
  "failure_message team_input handle last_err =
     ''Failed to search monitors for team '' @ [CHR 0x27] @ team_input @ [CHR 0x27]
       @ '' (resolved handle '' @ [CHR 0x27] @ py_str handle @ [CHR 0x27] @ ''). ''
       @ ''Last error: '' @ last_err"

text \<open>
  \<open>find_monitors_for_team\<close> of \<open>GE_Alerts_extract.py\<close>: what the call returns or
  raises, and the search queries it sent. A call that falls off the end of the function
  returns \<open>None\<close>.
\<close>

definition find_monitors_for_team ::
  "(string \<Rightarrow> exn + json) \<Rightarrow> (string \<Rightarrow> exn + json) \<Rightarrow> string \<Rightarrow> (exn + json) \<times> string list"
where
  "find_monitors_for_team team_api datadog_get team_input =
     (case extract_team_handle team_api team_input of
        Inl e \<Rightarrow> (Inl e, [])
      | Inr handle \<Rightarrow>
          (let r = variant_loop datadog_get (variants handle) None
           in (case fst r of
                 Return monitors \<Rightarrow> Inr monitors
               | Raise e \<Rightarrow> Inl e
               | Exhausted (Some he) \<Rightarrow>
                   Inl (RuntimeError (failure_message team_input handle (snd he)))
               | Exhausted None \<Rightarrow> Inr JNull,
               snd r)))"

section \<open>The paginated fetcher\<close>

text \<open>
  The loop \<open>while True\<close> of \<open>get_synthetic_tests\<close> in
  \<open>datadog_synthetics_export.py\<close>. The parameter \<open>get_page\<close> is the request with
  the parameters \<open>page\<close> and \<open>page_size\<close>, \<open>raise_for_status\<close> and the
  decoding of the body. The state of the loop is the page index, the tests collected and
  the page indices requested so far. The loop may run forever: the result is
  \<open>None\<close> then.
\<close>

partial_function (option) fetch_loop ::
  "(nat \<Rightarrow> nat \<Rightarrow> exn + json) \<Rightarrow> nat \<Rightarrow> nat \<Rightarrow> json list \<Rightarrow> nat list
     \<Rightarrow> ((exn + json list) \<times> nat list) option"
where
  "fetch_loop get_page page_size page all_tests requested =
     (case get_page page page_size of
        Inl e \<Rightarrow> Some (Inl e, requested @ [page])
      | Inr body \<Rightarrow>
          (case py_get (py_or body (JDict [])) ''tests'' (JList []) of
             Inl e \<Rightarrow> Some (Inl e, requested @ [page])
           | Inr tests \<Rightarrow>
               if \<not> truthy tests then Some (Inr all_tests, requested @ [page])
               else
                 (case py_iter tests of
                    Inl e \<Rightarrow> Some (Inl e, requested @ [page])
                  | Inr items \<Rightarrow>
                      (case py_len tests of
                         Inl e \<Rightarrow> Some (Inl e, requested @ [page])
                       | Inr n \<Rightarrow>
                           if n < page_size
                           then Some (Inr (all_tests @ items), requested @ [page])
                           else fetch_loop get_page page_size (page + 1) (all_tests @ items)
                                  (requested @ [page])))))"

declare fetch_loop.simps [code]

text \<open>\<open>get_synthetic_tests\<close>: the loop from page 0 with the page size 100.\<close>

definition get_synthetic_tests ::
  "(nat \<Rightarrow> nat \<Rightarrow> exn + json) \<Rightarrow> ((exn + json list) \<times> nat list) option"
where
  "get_synthetic_tests get_page = fetch_loop get_page 100 0 [] []"

section \<open>The record normalizer\<close>














section \<open>Team records, for stating the properties of the resolver\<close>

text \<open>
  The string stored under \<open>key\<close> in the \<open>attributes\<close> dictionary of a record of
  the team endpoint, when the record has one.
\<close>

definition team_attr :: "json \<Rightarrow> string \<Rightarrow> string option" where
  "team_attr t key =
     (case t of
        JDict kvs \<Rightarrow>
          (case map_of kvs ''attributes'' of
             Some (JDict attrs) \<Rightarrow>
               (case map_of attrs key of Some (JStr s) \<Rightarrow> Some s | _ \<Rightarrow> None)
           | _ \<Rightarrow> None)
      | _ \<Rightarrow> None)"

text \<open>A team record of the data model: a name and a handle, both strings.\<close>

definition team_record :: "json \<Rightarrow> bool" where
  "team_record t = (team_attr t ''name'' \<noteq> None \<and> team_attr t ''handle'' \<noteq> None)"

text \<open>The name or the handle of the record equals the keyword, case ignored.\<close>

definition exact_match :: "string \<Rightarrow> json \<Rightarrow> bool" where
  "exact_match keyword t =
     (map_option lower (team_attr t ''name'') = Some (lower keyword)
      \<or> map_option lower (team_attr t ''handle'') = Some (lower keyword))"

section \<open>Sample responses of the endpoints\<close>

text \<open>A team endpoint that knows no team: the body has an empty \<open>data\<close> list.\<close>

definition no_teams_api :: "string \<Rightarrow> exn + json" where
  "no_teams_api keyword = Inr (JDict [(''data'', JList [])])"

text \<open>A team endpoint that returns two teams for every keyword.\<close>

definition two_teams_api :: "string \<Rightarrow> exn + json" where
  "two_teams_api keyword =
     Inr (JDict [(''data'', JList
       [JDict [(''attributes'',
          JDict [(''name'', JStr ''Platform Ops''), (''handle'', JStr ''plat-ops'')])],
        JDict [(''attributes'',
          JDict [(''name'', JStr ''Ops''), (''handle'', JStr ''ops-core'')])]])])"

text \<open>A team endpoint whose second team has a name and no handle.\<close>

definition nameless_handle_api :: "string \<Rightarrow> exn + json" where
  "nameless_handle_api keyword =
     Inr (JDict [(''data'', JList
       [JDict [(''attributes'',
          JDict [(''name'', JStr ''Platform Ops''), (''handle'', JStr ''plat-ops'')])],
        JDict [(''attributes'', JDict [(''name'', JStr ''Ops'')])]])])"

text \<open>Search endpoints for the examples; the resolved handle is \<open>ops-core\<close>.\<close>

definition cpu_monitor :: json where
  "cpu_monitor = JDict [(''id'', JInt 5), (''name'', JStr ''cpu''), (''type'', JStr ''metric'')]"

definition unidentified_monitor :: json where
  "unidentified_monitor = JDict [(''name'', JStr ''draft'')]"

text \<open>
  Rejects the first query with status 400, finds nothing for the second, and answers
  the third with two candidates, one of them without an id.
\<close>

definition third_variant_api :: "string \<Rightarrow> exn + json" where
  "third_variant_api q =
     (if q = ''team:ops-core'' then Inl (HTTPError 400 ''400 Client Error: Bad Request'')
      else if q = ''team:'' @ [CHR 0x22] @ ''ops-core'' @ [CHR 0x22]
        then Inr (JDict [(''monitors'', JList [])])
      else if q = ''teams:ops-core''
        then Inr (JDict [(''data'',
               JDict [(''monitors'', JList [cpu_monitor, unidentified_monitor])])])
      else Inl (RequestError ''connection refused''))"

text \<open>Answers the first query with status 500 and every other query with a monitor.\<close>

definition server_error_api :: "string \<Rightarrow> exn + json" where
  "server_error_api q =
     (if q = ''team:ops-core''
        then Inl (HTTPError 500 ''500 Server Error: Internal Server Error'')
      else Inr (JDict [(''monitors'', JList [cpu_monitor])]))"

text \<open>Rejects the first query with status 400; every other request times out.\<close>

definition timeout_api :: "string \<Rightarrow> exn + json" where
  "timeout_api q =
     (if q = ''team:ops-core'' then Inl (HTTPError 400 ''400 Client Error: Bad Request'')
      else Inl (RequestError ''read timed out''))"

text \<open>Answers every query with an empty list of monitors.\<close>

definition empty_search_api :: "string \<Rightarrow> exn + json" where
  "empty_search_api q = Inr (JDict [(''monitors'', JList [])])"

text \<open>
  Rejects the third query with one message and the first two with another, and finds
  nothing for the fourth.
\<close>

definition rejecting_api :: "string \<Rightarrow> exn + json" where
  "rejecting_api q =
     (if q = ''teams:ops-core'' then Inl (HTTPError 400 ''400 Client Error: unknown field'')
      else if q = ''teams:'' @ [CHR 0x22] @ ''ops-core'' @ [CHR 0x22]
        then Inr (JDict [(''monitors'', JList [])])
      else Inl (HTTPError 400 ''400 Client Error: Bad Request''))"

section \<open>Outcomes of one query, for stating the properties of the engine\<close>

text \<open>
  The loop goes on to the next variant after the query \<open>q\<close>: the \<open>try\<close> block
  raised an \<open>HTTPError\<close>, or it produced an empty list of monitors.
\<close>

definition skipped :: "(string \<Rightarrow> exn + json) \<Rightarrow> string \<Rightarrow> bool" where
  "skipped datadog_get q =
     (case attempt datadog_get q of
        Inl e \<Rightarrow> http_error e \<noteq> None
      | Inr monitors \<Rightarrow> monitors = [])"

text \<open>The value stored under \<open>key\<close> in a dictionary, \<open>None\<close> when there is none.\<close>

definition field :: "json \<Rightarrow> string \<Rightarrow> json" where
  "field m key =
     (case m of
        JDict kvs \<Rightarrow> (case map_of kvs key of Some v \<Rightarrow> v | None \<Rightarrow> JNull)
      | _ \<Rightarrow> JNull)"

fun is_dict :: "json \<Rightarrow> bool" where
  "is_dict (JDict kvs) = True"
| "is_dict _ = False"

section \<open>Pages of the listing endpoint, for stating the properties of the fetcher\<close>

text \<open>
  The tests on the page with index \<open>page\<close>: the list under \<open>tests\<close> in the body of
  the response, when the request succeeds and the body holds such a list.
\<close>

definition page_tests :: "(nat \<Rightarrow> nat \<Rightarrow> exn + json) \<Rightarrow> nat \<Rightarrow> nat \<Rightarrow> json list option" where
  "page_tests get_page page_size page =
     (case get_page page page_size of
        Inl e \<Rightarrow> None
      | Inr body \<Rightarrow>
          (case py_get (py_or body (JDict [])) ''tests'' (JList []) of
             Inr (JList tests) \<Rightarrow> Some tests
           | _ \<Rightarrow> None))"

definition sample_test :: json where
  "sample_test = JDict [(''public_id'', JStr ''abc-123''), (''type'', JStr ''api'')]"

text \<open>A listing of 237 tests: pages of 100, 100 and 37 tests, and empty pages after them.\<close>

definition listing_237 :: "nat \<Rightarrow> nat \<Rightarrow> exn + json" where
  "listing_237 page page_size =
     Inr (JDict [(''tests'',
       JList (replicate (if page < 2 then 100 else if page = 2 then 37 else 0) sample_test))])"

text \<open>A listing of 300 tests: three pages of 100 tests, and empty pages after them.\<close>

definition listing_300 :: "nat \<Rightarrow> nat \<Rightarrow> exn + json" where
  "listing_300 page page_size =
     Inr (JDict [(''tests'', JList (replicate (if page < 3 then 100 else 0) sample_test))])"

text \<open>A listing that never ends: every page has 100 tests.\<close>

definition endless_listing :: "nat \<Rightarrow> nat \<Rightarrow> exn + json" where
  "endless_listing page page_size =
     Inr (JDict [(''tests'', JList (replicate 100 sample_test))])"

section \<open>Well-typed test records, for stating the properties of the normalizer\<close>

fun is_string :: "json \<Rightarrow> bool" where
  "is_string (JStr s) = True"
| "is_string _ = False"











section \<open>Properties of the duration formatter\<close>

lemma py_int_fails_not_available:
  "py_int v = Inl e \<Longrightarrow> format_seconds_to_human v = Inr ''N/A''"
  by (cases v) (auto simp add: format_seconds_to_human_def split: option.splits)

lemma mod_60_mod_3600: "(sec::int) mod 60 \<noteq> 0 \<Longrightarrow> sec mod 3600 \<noteq> 0"
proof
  assume a: "sec mod 60 \<noteq> 0" and b: "sec mod 3600 = 0"
  from b have "3600 dvd sec" by (simp add: dvd_eq_mod_eq_0)
  moreover have "(60::int) dvd 3600" by simp
  ultimately have "60 dvd sec" by (rule dvd_trans[rotated])
  with a show False by (simp add: dvd_eq_mod_eq_0)
qed

lemmas eval_text = format_seconds_to_human_def str_int_def str_nat.simps plural_def
  digit_char_def

text \<open>
  C7. \<open>format_seconds_to_human\<close>: \<open>None\<close> and every input that is not numeric (a
  list, a dictionary, a string that is not an integer literal) give \<open>N/A\<close>; \<open>0\<close>
  gives \<open>0 seconds\<close>; a non-zero multiple of 3600 gives the number of hours followed
  by \<open>hour\<close>, with \<open>s\<close> unless the number is 1; otherwise a multiple of 60 gives
  the number of minutes followed by \<open>minute\<close>, with \<open>s\<close> unless the number is 1;
  otherwise the number followed by \<open>seconds\<close>. The hour check comes first: 3600 gives
  \<open>1 hour\<close>, 7200 gives \<open>2 hours\<close>, 120 gives \<open>2 minutes\<close> and 90 gives
  \<open>90 seconds\<close>.
\<close>

theorem format_seconds_to_human_cases:
  "format_seconds_to_human JNull = Inr ''N/A''
   \<and> format_seconds_to_human (JList xs) = Inr ''N/A''
   \<and> format_seconds_to_human (JDict kvs) = Inr ''N/A''
   \<and> (int_of_string s = None \<longrightarrow> format_seconds_to_human (JStr s) = Inr ''N/A'')
   \<and> format_seconds_to_human (JInt 0) = Inr ''0 seconds''
   \<and> (h \<noteq> 0 \<and> h mod 3600 = 0 \<longrightarrow>
        format_seconds_to_human (JInt h) =
          Inr (str_int (h div 3600) @ '' hour'' @ (if h div 3600 = 1 then '''' else ''s'')))
   \<and> (m mod 3600 \<noteq> 0 \<and> m mod 60 = 0 \<longrightarrow>
        format_seconds_to_human (JInt m) =
          Inr (str_int (m div 60) @ '' minute'' @ (if m div 60 = 1 then '''' else ''s'')))
   \<and> (sec mod 60 \<noteq> 0 \<longrightarrow>
        format_seconds_to_human (JInt sec) = Inr (str_int sec @ '' seconds''))
   \<and> format_seconds_to_human (JInt 3600) = Inr ''1 hour''
   \<and> format_seconds_to_human (JInt 7200) = Inr ''2 hours''
   \<and> format_seconds_to_human (JInt 120) = Inr ''2 minutes''
   \<and> format_seconds_to_human (JInt 90) = Inr ''90 seconds''"
proof -
  have nonnum: "format_seconds_to_human (JList xs) = Inr ''N/A''"
    "format_seconds_to_human (JDict kvs) = Inr ''N/A''"
    "int_of_string s = None \<longrightarrow> format_seconds_to_human (JStr s) = Inr ''N/A''"
    by (simp_all add: py_int_fails_not_available)
  have hours: "h \<noteq> 0 \<and> h mod 3600 = 0 \<longrightarrow>
        format_seconds_to_human (JInt h) =
          Inr (str_int (h div 3600) @ '' hour'' @ (if h div 3600 = 1 then '''' else ''s''))"
    by (simp add: format_seconds_to_human_def Let_def plural_def)
  have minutes: "m mod 3600 \<noteq> 0 \<and> m mod 60 = 0 \<longrightarrow>
        format_seconds_to_human (JInt m) =
          Inr (str_int (m div 60) @ '' minute'' @ (if m div 60 = 1 then '''' else ''s''))"
    by (auto simp add: format_seconds_to_human_def Let_def plural_def)
  have seconds: "sec mod 60 \<noteq> 0 \<longrightarrow>
        format_seconds_to_human (JInt sec) = Inr (str_int sec @ '' seconds'')"
  proof
    assume a: "sec mod 60 \<noteq> 0"
    from a have "sec mod 3600 \<noteq> 0" by (rule mod_60_mod_3600)
    moreover from a have "sec \<noteq> 0" by auto
    ultimately show "format_seconds_to_human (JInt sec) = Inr (str_int sec @ '' seconds'')"
      using a by (simp add: format_seconds_to_human_def)
  qed
  have examples: "format_seconds_to_human (JInt 3600) = Inr ''1 hour''"
    "format_seconds_to_human (JInt 7200) = Inr ''2 hours''"
    "format_seconds_to_human (JInt 120) = Inr ''2 minutes''"
    "format_seconds_to_human (JInt 90) = Inr ''90 seconds''"
    by (simp_all add: eval_text)
  have basic: "format_seconds_to_human JNull = Inr ''N/A''"
    "format_seconds_to_human (JInt 0) = Inr ''0 seconds''"
    by (simp_all add: format_seconds_to_human_def ne_zero_def)
  show ?thesis
    by (intro conjI) (fact basic nonnum hours minutes seconds examples)+
qed

text \<open>
  The cases at concrete inputs: the string \<open>soon\<close>, a list, 10800, 300, 60 and 45.
\<close>

theorem format_seconds_to_human_cases_witness:
  "int_of_string ''soon'' = None
   \<and> format_seconds_to_human (JStr ''soon'') = Inr ''N/A''
   \<and> format_seconds_to_human (JList [JInt 60]) = Inr ''N/A''
   \<and> format_seconds_to_human (JInt 10800) = Inr ''3 hours''
   \<and> format_seconds_to_human (JInt 300) = Inr ''5 minutes''
   \<and> format_seconds_to_human (JInt 60) = Inr ''1 minute''
   \<and> format_seconds_to_human (JInt 45) = Inr ''45 seconds''"
proof -
  note w = format_seconds_to_human_cases [of "[JInt 60]" "[]" "''soon''" 10800 300 45]
  note w1 = format_seconds_to_human_cases [of "[]" "[]" "''soon''" 10800 60 45]
  have p: "int_of_string ''soon'' = None"
    by (simp add: int_of_string_def strip_def isspace_def digit_val_def)
  have t: "str_int 3 = ''3''" "str_int 5 = ''5''" "str_int 1 = ''1''" "str_int 45 = ''45''"
    by (simp_all add: str_int_def str_nat.simps digit_char_def)
  from w p have a: "format_seconds_to_human (JStr ''soon'') = Inr ''N/A''"
    by blast
  from w have b: "format_seconds_to_human (JList [JInt 60]) = Inr ''N/A''"
    by blast
  have "(10800::int) \<noteq> 0 \<and> (10800::int) mod 3600 = 0" by simp
  with w have "format_seconds_to_human (JInt 10800) =
      Inr (str_int (10800 div 3600) @ '' hour'' @ (if (10800::int) div 3600 = 1 then '''' else ''s''))"
    by blast
  then have c: "format_seconds_to_human (JInt 10800) = Inr ''3 hours''"
    using t by simp
  have "(300::int) mod 3600 \<noteq> 0 \<and> (300::int) mod 60 = 0" by simp
  with w have "format_seconds_to_human (JInt 300) =
      Inr (str_int (300 div 60) @ '' minute'' @ (if (300::int) div 60 = 1 then '''' else ''s''))"
    by blast
  then have d: "format_seconds_to_human (JInt 300) = Inr ''5 minutes''"
    using t by simp
  have "(60::int) mod 3600 \<noteq> 0 \<and> (60::int) mod 60 = 0" by simp
  with w1 have "format_seconds_to_human (JInt 60) =
      Inr (str_int (60 div 60) @ '' minute'' @ (if (60::int) div 60 = 1 then '''' else ''s''))"
    by blast
  then have e: "format_seconds_to_human (JInt 60) = Inr ''1 minute''"
    using t by simp
  have "(45::int) mod 60 \<noteq> 0" by simp
  with w have "format_seconds_to_human (JInt 45) = Inr (str_int 45 @ '' seconds'')"
    by blast
  then have f: "format_seconds_to_human (JInt 45) = Inr ''45 seconds''"
    using t by simp
  from p a b c d e f show ?thesis by simp
qed

section \<open>Properties of the identifier resolver\<close>

lemma exn_bind_Inr [simp]: "exn_bind (Inr v) f = f v"
  by (simp add: exn_bind_def)

lemma exn_bind_Inl [simp]: "exn_bind (Inl e) f = Inl e"
  by (simp add: exn_bind_def)

lemma team_attr_cases:
  assumes "team_attr t key = Some s"
  obtains kvs attrs where "t = JDict kvs" "map_of kvs ''attributes'' = Some (JDict attrs)"
    "map_of attrs key = Some (JStr s)"
  using assms
  by (auto simp add: team_attr_def split: json.splits option.splits)

lemma scan_teams_team_record:
  assumes "team_attr t ''name'' = Some n" "team_attr t ''handle'' = Some h"
  shows "scan_teams keyword (t # ts) =
           (if lower keyword = lower n \<or> lower keyword = lower h then Inr (Some (JStr h))
            else scan_teams keyword ts)"
proof -
  from assms(1) obtain kvs attrs where t: "t = JDict kvs"
    and a: "map_of kvs ''attributes'' = Some (JDict attrs)"
    and n: "map_of attrs ''name'' = Some (JStr n)"
    by (rule team_attr_cases)
  from assms(2) t a have h: "map_of attrs ''handle'' = Some (JStr h)"
    by (auto simp add: team_attr_def split: json.splits option.splits)
  from n have "attrs \<noteq> []" by auto
  then have o: "py_or (JDict attrs) (JDict []) = JDict attrs"
    by (simp add: py_or_def)
  show ?thesis
    by (simp add: t a o n h)
qed

lemma scan_teams_find:
  "\<forall>t\<in>set ts. team_record t \<Longrightarrow>
   scan_teams keyword ts =
     Inr (case find (exact_match keyword) ts of
            None \<Rightarrow> None
          | Some t \<Rightarrow> map_option JStr (team_attr t ''handle''))"
proof (induction ts)
  case Nil
  then show ?case by simp
next
  case (Cons t ts)
  from Cons.prems obtain n h where nh: "team_attr t ''name'' = Some n" "team_attr t ''handle'' = Some h"
    by (auto simp add: team_record_def)
  from Cons have ih: "scan_teams keyword ts =
     Inr (case find (exact_match keyword) ts of
            None \<Rightarrow> None
          | Some t \<Rightarrow> map_option JStr (team_attr t ''handle''))"
    by simp
  show ?case
    by (subst scan_teams_team_record [OF nh]) (auto simp add: ih exact_match_def nh)
qed

lemma scan_teams_append:
  "scan_teams keyword pre = Inr None \<Longrightarrow>
   scan_teams keyword (pre @ rest) = scan_teams keyword rest"
  by (induction pre) (auto simp add: exn_bind_def split: sum.splits if_splits)

lemma scan_teams_no_match:
  assumes "\<forall>r\<in>set pre. team_record r \<and> \<not> exact_match keyword r"
  shows "scan_teams keyword pre = Inr None"
proof -
  from assms have "find (exact_match keyword) pre = None"
    by (simp add: find_None_iff)
  moreover from assms have "\<forall>r\<in>set pre. team_record r" by simp
  ultimately show ?thesis
    by (simp add: scan_teams_find)
qed

lemmas eval_strings = lower_def lower_char_def strip_def isspace_def replace_space_hyphen_def

lemma two_teams:
  "list_teams_by_keyword two_teams_api keyword =
     Inr (JList
       [JDict [(''attributes'',
          JDict [(''name'', JStr ''Platform Ops''), (''handle'', JStr ''plat-ops'')])],
        JDict [(''attributes'',
          JDict [(''name'', JStr ''Ops''), (''handle'', JStr ''ops-core'')])]])"
  by (simp add: list_teams_by_keyword_def two_teams_api_def py_or_def)

text \<open>
  C5, as amended. When the team lookup returns no record, \<open>_extract_team_handle\<close>
  does not raise and returns the keyword with the whitespace at both ends stripped, then
  lower-cased, then with every remaining space replaced by a hyphen.
\<close>

theorem extract_team_handle_no_records:
  assumes "list_teams_by_keyword team_api keyword = Inr (JList [])"
  shows "extract_team_handle team_api keyword =
           Inr (JStr (replace_space_hyphen (lower (strip keyword))))"
  using assms by (simp add: extract_team_handle_def synthesized_handle_def)

text \<open>
  The keyword \<open>" Ops Team"\<close>, with a space in front, at an endpoint that knows no
  team: the handle is \<open>ops-team\<close>.
\<close>

theorem extract_team_handle_no_records_witness:
  "list_teams_by_keyword no_teams_api '' Ops Team'' = Inr (JList [])
   \<and> extract_team_handle no_teams_api '' Ops Team'' = Inr (JStr ''ops-team'')"
proof -
  have l: "list_teams_by_keyword no_teams_api '' Ops Team'' = Inr (JList [])"
    by (simp add: list_teams_by_keyword_def no_teams_api_def py_or_def)
  have "replace_space_hyphen (lower (strip '' Ops Team'')) = ''ops-team''"
    by (simp add: eval_strings)
  with extract_team_handle_no_records [OF l] l show ?thesis by simp
qed

text \<open>
  C5 as stated fails at that keyword. Lower-casing it and replacing its spaces by
  hyphens gives \<open>-ops-team\<close>; the function strips the keyword first and returns
  \<open>ops-team\<close>.
\<close>

theorem extract_team_handle_spaces_counterexample:
  "list_teams_by_keyword no_teams_api '' Ops Team'' = Inr (JList [])
   \<and> extract_team_handle no_teams_api '' Ops Team'' = Inr (JStr ''ops-team'')
   \<and> replace_space_hyphen (lower '' Ops Team'') = ''-ops-team''
   \<and> extract_team_handle no_teams_api '' Ops Team''
       \<noteq> Inr (JStr (replace_space_hyphen (lower '' Ops Team'')))"
  by (simp add: extract_team_handle_def list_teams_by_keyword_def no_teams_api_def
      synthesized_handle_def py_or_def eval_strings)

text \<open>
  C6. When the team lookup returns a non-empty list of team records (each with a name
  and a handle, both strings), \<open>_extract_team_handle\<close> returns the handle of the
  first record, in the order of the list, whose name or handle equals the keyword with
  the case ignored, wherever that record stands in the list; when no record matches, it
  returns the handle of the first record.
\<close>

theorem extract_team_handle_exact_match_preference:
  assumes "list_teams_by_keyword team_api keyword = Inr (JList ts)"
    and "ts \<noteq> []"
    and "\<forall>t\<in>set ts. team_record t"
  shows "\<exists>h. team_attr (case find (exact_match keyword) ts of Some t \<Rightarrow> t | None \<Rightarrow> hd ts)
               ''handle'' = Some h
             \<and> extract_team_handle team_api keyword = Inr (JStr h)"
proof (cases "find (exact_match keyword) ts")
  case None
  from assms(2) obtain t0 rest where ts: "ts = t0 # rest"
    by (cases ts) auto
  with assms(3) obtain h where h: "team_attr t0 ''handle'' = Some h"
    by (auto simp add: team_record_def)
  then obtain kvs attrs where t0: "t0 = JDict kvs"
    "map_of kvs ''attributes'' = Some (JDict attrs)" "map_of attrs ''handle'' = Some (JStr h)"
    by (rule team_attr_cases)
  have scan: "scan_teams keyword ts = Inr None"
    using None by (simp add: scan_teams_find [OF assms(3)])
  have first: "py_first (JList ts) = Inr t0"
    by (simp add: ts)
  have "extract_team_handle team_api keyword = Inr (JStr h)"
    using assms(1,2) t0
    by (simp add: extract_team_handle_def scan first del: py_first.simps)
  with None h ts show ?thesis by simp
next
  case (Some t)
  then have "t \<in> set ts"
    by (auto simp add: find_Some_iff)
  with assms(3) obtain h where h: "team_attr t ''handle'' = Some h"
    by (auto simp add: team_record_def)
  have "extract_team_handle team_api keyword = Inr (JStr h)"
    using assms(1,2) Some h
    by (simp add: extract_team_handle_def scan_teams_find [OF assms(3)])
  with Some h show ?thesis by simp
qed

text \<open>
  Two teams, \<open>Platform Ops\<close> and then \<open>Ops\<close>: the keyword \<open>OPS\<close> matches the
  name of the second and \<open>Ops-Core\<close> its handle, so the second handle is returned;
  \<open>billing\<close> matches neither, so the first handle is returned.
\<close>

theorem extract_team_handle_exact_match_preference_witness:
  "extract_team_handle two_teams_api ''OPS'' = Inr (JStr ''ops-core'')
   \<and> extract_team_handle two_teams_api ''Ops-Core'' = Inr (JStr ''ops-core'')
   \<and> extract_team_handle two_teams_api ''billing'' = Inr (JStr ''plat-ops'')"
proof -
  let ?ts = "[JDict [(''attributes'',
          JDict [(''name'', JStr ''Platform Ops''), (''handle'', JStr ''plat-ops'')])],
        JDict [(''attributes'',
          JDict [(''name'', JStr ''Ops''), (''handle'', JStr ''ops-core'')])]]"
  have r: "\<forall>t\<in>set ?ts. team_record t"
    by (simp add: team_record_def team_attr_def)
  have n: "?ts \<noteq> []" by simp
  note w = extract_team_handle_exact_match_preference [OF two_teams n r]
  have "extract_team_handle two_teams_api ''OPS'' = Inr (JStr ''ops-core'')"
    using w [of "''OPS''"] by (simp add: exact_match_def team_attr_def eval_strings)
  moreover have "extract_team_handle two_teams_api ''Ops-Core'' = Inr (JStr ''ops-core'')"
    using w [of "''Ops-Core''"] by (simp add: exact_match_def team_attr_def eval_strings)
  moreover have "extract_team_handle two_teams_api ''billing'' = Inr (JStr ''plat-ops'')"
    using w [of "''billing''"] by (simp add: exact_match_def team_attr_def eval_strings)
  ultimately show ?thesis by simp
qed

text \<open>
  C10. When the first record that matches is one whose name equals the keyword with the
  case ignored and whose attributes have no \<open>handle\<close> key, and the records before it
  are team records that do not match, \<open>_extract_team_handle\<close> returns the empty
  string.
\<close>

theorem extract_team_handle_missing_handle:
  assumes "list_teams_by_keyword team_api keyword = Inr (JList (pre @ JDict kvs # post))"
    and "\<forall>r\<in>set pre. team_record r \<and> \<not> exact_match keyword r"
    and "map_of kvs ''attributes'' = Some (JDict attrs)"
    and "map_of attrs ''name'' = Some (JStr n)"
    and "lower n = lower keyword"
    and "map_of attrs ''handle'' = None"
  shows "extract_team_handle team_api keyword = Inr (JStr '''')"
proof -
  from assms(4) have "attrs \<noteq> []" by auto
  then have o: "py_or (JDict attrs) (JDict []) = JDict attrs"
    by (simp add: py_or_def)
  have here: "scan_teams keyword (JDict kvs # post) = Inr (Some (JStr ''''))"
    using assms(3-6) by (simp add: o)
  have "scan_teams keyword (pre @ JDict kvs # post) = Inr (Some (JStr ''''))"
    using scan_teams_no_match [OF assms(2)] here by (simp add: scan_teams_append)
  then show ?thesis
    using assms(1) by (simp add: extract_team_handle_def)
qed

text \<open>
  The keyword \<open>OPS\<close> where the second team is named \<open>Ops\<close> and has no handle.
\<close>

theorem extract_team_handle_missing_handle_witness:
  "extract_team_handle nameless_handle_api ''OPS'' = Inr (JStr '''')"
proof -
  let ?pre = "[JDict [(''attributes'',
          JDict [(''name'', JStr ''Platform Ops''), (''handle'', JStr ''plat-ops'')])]]"
  have l: "list_teams_by_keyword nameless_handle_api ''OPS'' =
     Inr (JList (?pre @ JDict [(''attributes'', JDict [(''name'', JStr ''Ops'')])] # []))"
    by (simp add: list_teams_by_keyword_def nameless_handle_api_def py_or_def)
  have p: "\<forall>r\<in>set ?pre. team_record r \<and> \<not> exact_match ''OPS'' r"
    by (simp add: team_record_def exact_match_def team_attr_def eval_strings)
  have a: "map_of [(''attributes'', JDict [(''name'', JStr ''Ops'')])] ''attributes''
             = Some (JDict [(''name'', JStr ''Ops'')])"
    by simp
  have b: "map_of [(''name'', JStr ''Ops'')] ''name'' = Some (JStr ''Ops'')"
    by simp
  have c: "lower ''Ops'' = lower ''OPS''"
    by (simp add: eval_strings)
  have d: "map_of [(''name'', JStr ''Ops'')] ''handle'' = None"
    by simp
  show ?thesis
    by (rule extract_team_handle_missing_handle [OF l p a b c d])
qed

section \<open>Properties of the fallback query engine\<close>

text \<open>Whatever the team endpoint answers, a handle that is resolved is a string.\<close>

lemma py_lower_string: "py_lower v = Inr s \<Longrightarrow> is_string v"
  by (cases v) simp_all

lemma scan_teams_found_string:
  "scan_teams keyword ts = Inr (Some handle) \<Longrightarrow> is_string handle"
proof (induction ts)
  case Nil
  then show ?case by simp
next
  case (Cons t ts)
  then show ?case
    by (auto simp add: exn_bind_def split: sum.splits if_splits dest: py_lower_string)
qed

lemma scan_teams_passed_head:
  assumes "scan_teams keyword (t # ts) = Inr None"
  obtains kvs where "t = JDict kvs"
    "is_string (case map_of (case py_or (case map_of kvs ''attributes'' of Some a \<Rightarrow> a | None \<Rightarrow> JDict []) (JDict []) of JDict akvs \<Rightarrow> akvs | _ \<Rightarrow> [])
        ''handle'' of Some v \<Rightarrow> v | None \<Rightarrow> JStr '''')"
    "is_dict (py_or (case map_of kvs ''attributes'' of Some a \<Rightarrow> a | None \<Rightarrow> JDict []) (JDict []))"
proof -
  from assms obtain kvs where t: "t = JDict kvs"
    by (cases t) (auto simp add: exn_bind_def)
  let ?a = "py_or (case map_of kvs ''attributes'' of Some a \<Rightarrow> a | None \<Rightarrow> JDict []) (JDict [])"
  from assms t obtain akvs where a: "?a = JDict akvs"
    by (cases ?a) (auto simp add: exn_bind_def)
  from assms t a have "is_string (case map_of akvs ''handle'' of Some v \<Rightarrow> v | None \<Rightarrow> JStr '''')"
    by (auto simp add: exn_bind_def split: sum.splits if_splits dest: py_lower_string)
  with t a show ?thesis by (intro that [of kvs]) simp_all
qed

lemma extract_team_handle_string:
  assumes "extract_team_handle team_api keyword = Inr handle"
  shows "is_string handle"
proof -
  from assms obtain teams where l: "list_teams_by_keyword team_api keyword = Inr teams"
    by (cases "list_teams_by_keyword team_api keyword") (auto simp add: extract_team_handle_def)
  show ?thesis
  proof (cases "truthy teams")
    case False
    with assms l show ?thesis by (auto simp add: extract_team_handle_def)
  next
    case True
    with assms l obtain ts where ts: "py_iter teams = Inr ts"
      by (cases "py_iter teams") (auto simp add: extract_team_handle_def)
    with assms l True obtain found where f: "scan_teams keyword ts = Inr found"
      by (cases "scan_teams keyword ts") (auto simp add: extract_team_handle_def)
    show ?thesis
    proof (cases found)
      case (Some h)
      with assms l True ts f have "handle = h" by (simp add: extract_team_handle_def)
      with f Some show ?thesis by (auto dest: scan_teams_found_string)
    next
      case None
      from True ts obtain t rest where tr: "ts = t # rest"
        by (cases teams; cases ts) auto
      from f None tr have "scan_teams keyword (t # rest) = Inr None" by simp
      then obtain kvs where k: "t = JDict kvs"
        and s: "is_string (case map_of (case py_or (case map_of kvs ''attributes'' of Some a \<Rightarrow> a | None \<Rightarrow> JDict []) (JDict []) of JDict akvs \<Rightarrow> akvs | _ \<Rightarrow> [])
        ''handle'' of Some v \<Rightarrow> v | None \<Rightarrow> JStr '''')"
        by (rule scan_teams_passed_head)
      from ts tr k have first: "py_first teams = Inr (JDict kvs)"
        by (cases teams) auto
      from assms l True ts f None first
      have fb: "exn_bind (py_get (JDict kvs) ''attributes'' (JDict []))
          (\<lambda>a. py_get a ''handle'' (JStr (synthesized_handle keyword))) = Inr handle"
        by (simp add: extract_team_handle_def del: py_first.simps py_get.simps)
      show ?thesis
      proof (cases "map_of kvs ''attributes''")
        case None
        with fb show ?thesis by auto
      next
        case (Some a)
        with fb obtain akvs where a: "a = JDict akvs"
          by (cases a) auto
        show ?thesis
        proof (cases "akvs = []")
          case True
          with fb Some a show ?thesis by auto
        next
          case False
          with a have "py_or a (JDict []) = JDict akvs" by (simp add: py_or_def)
          with s Some a fb show ?thesis
            by (auto split: option.splits)
        qed
      qed
    qed
  qed
qed

lemma variant_loop_skipped:
  "\<forall>q\<in>set pre. skipped datadog_get q \<Longrightarrow>
   \<exists>l. variant_loop datadog_get (pre @ rest) err =
         (fst (variant_loop datadog_get rest l), pre @ snd (variant_loop datadog_get rest l))"
proof (induction pre arbitrary: err)
  case Nil
  show ?case by (rule exI [of _ err]) simp
next
  case (Cons q pre)
  then have pre: "\<forall>q\<in>set pre. skipped datadog_get q" by simp
  from Cons.prems have "skipped datadog_get q" by simp
  then consider (rejected) e he where "attempt datadog_get q = Inl e" "http_error e = Some he"
    | (empty) "attempt datadog_get q = Inr []"
    by (auto simp add: skipped_def split: sum.splits)
  then show ?case
  proof cases
    case rejected
    from Cons.IH [OF pre, of "Some he"] obtain l where
      "variant_loop datadog_get (pre @ rest) (Some he) =
         (fst (variant_loop datadog_get rest l), pre @ snd (variant_loop datadog_get rest l))"
      by blast
    with rejected show ?thesis by (auto simp add: Let_def)
  next
    case empty
    from Cons.IH [OF pre, of err] obtain l where
      "variant_loop datadog_get (pre @ rest) err =
         (fst (variant_loop datadog_get rest l), pre @ snd (variant_loop datadog_get rest l))"
      by blast
    with empty show ?thesis by (auto simp add: Let_def)
  qed
qed

lemma variant_loop_all_empty:
  "\<forall>q\<in>set qs. attempt datadog_get q = Inr [] \<Longrightarrow>
   variant_loop datadog_get qs err = (Exhausted err, qs)"
  by (induction qs) (simp_all add: Let_def)

lemma variant_loop_requests_head:
  "\<exists>more. snd (variant_loop datadog_get (p # ps) err) = p # more"
  by (auto simp add: Let_def split: sum.splits option.splits)

lemma attempt_raises:
  "datadog_get q = Inl e \<Longrightarrow> attempt datadog_get q = Inl e"
  by (simp add: attempt_def)

lemma variants_string:
  "variants (JStr h) =
     [''team:'' @ h, ''team:'' @ [CHR 0x22] @ h @ [CHR 0x22],
      ''teams:'' @ h, ''teams:'' @ [CHR 0x22] @ h @ [CHR 0x22]]"
  by (simp add: variants_def)

lemma project_monitors_filter:
  "list_all is_dict ms \<Longrightarrow>
   project_monitors ms =
     Inr (map (\<lambda>m. JDict [(''id'', field m ''id''), (''name'', field m ''name'')])
            (filter (\<lambda>m. field m ''id'' \<noteq> JNull) ms))"
proof (induction ms)
  case Nil
  then show ?case by simp
next
  case (Cons m ms)
  then obtain kvs where "m = JDict kvs" by (cases m) auto
  with Cons show ?case
    by (auto simp add: field_def exn_bind_def split: option.splits)
qed

lemma resolve_ops:
  "extract_team_handle two_teams_api ''OPS'' = Inr (JStr ''ops-core'')"
  by (simp add: extract_team_handle_def two_teams py_or_def eval_strings)

lemmas eval_search = attempt_def search_candidates_def py_or_def cpu_monitor_def
  unidentified_monitor_def skipped_def

text \<open>
  C1. For a resolved handle \<open>h\<close> (a string, as every resolved handle is), the
  queries are \<open>team:h\<close>, \<open>team:"h"\<close>, \<open>teams:h\<close> and \<open>teams:"h"\<close>
  in this order. When \<open>q\<close> is the first of them
  whose filtered list of monitors is not empty (the queries before it were rejected with
  an \<open>HTTPError\<close> or gave an empty list), \<open>find_monitors_for_team\<close> returns
  the list of \<open>q\<close> and has sent the queries up to \<open>q\<close> and none after it. The list
  is the candidates of the response that have an id, each reduced to its id and name.
\<close>

theorem find_monitors_for_team_first_success:
  assumes "extract_team_handle team_api team_input = Inr (JStr h)"
    and "variants (JStr h) = pre @ q # post"
    and "\<forall>p\<in>set pre. skipped datadog_get p"
    and "attempt datadog_get q = Inr monitors"
    and "monitors \<noteq> []"
  shows "variants (JStr h) =
           [''team:'' @ h, ''team:'' @ [CHR 0x22] @ h @ [CHR 0x22],
            ''teams:'' @ h, ''teams:'' @ [CHR 0x22] @ h @ [CHR 0x22]]
         \<and> find_monitors_for_team team_api datadog_get team_input =
             (Inr (JList monitors), pre @ [q])
         \<and> (\<forall>data candidates.
               datadog_get q = Inr data
               \<and> py_or (search_candidates data) (JList []) = JList candidates
               \<and> list_all is_dict candidates
               \<longrightarrow> monitors =
                     map (\<lambda>m. JDict [(''id'', field m ''id''), (''name'', field m ''name'')])
                       (filter (\<lambda>m. field m ''id'' \<noteq> JNull) candidates))"
proof -
  from variant_loop_skipped [OF assms(3), of "q # post" None] obtain l where
    "variant_loop datadog_get (pre @ q # post) None =
       (fst (variant_loop datadog_get (q # post) l),
        pre @ snd (variant_loop datadog_get (q # post) l))"
    by blast
  with assms(4,5) have "variant_loop datadog_get (pre @ q # post) None =
      (Return (JList monitors), pre @ [q])"
    by simp
  with assms(1,2) have result: "find_monitors_for_team team_api datadog_get team_input =
      (Inr (JList monitors), pre @ [q])"
    by (simp add: find_monitors_for_team_def)
  have filtered: "monitors =
      map (\<lambda>m. JDict [(''id'', field m ''id''), (''name'', field m ''name'')])
        (filter (\<lambda>m. field m ''id'' \<noteq> JNull) candidates)"
    if "datadog_get q = Inr data"
      and "py_or (search_candidates data) (JList []) = JList candidates"
      and "list_all is_dict candidates" for data candidates
    using assms(4) that by (simp add: attempt_def project_monitors_filter)
  from result filtered variants_string [of h] show ?thesis by blast
qed

text \<open>
  The first query is rejected, the second finds nothing, the third finds a monitor with
  an id and one without: the result is the first monitor and three queries were sent.
\<close>

theorem find_monitors_for_team_first_success_witness:
  "find_monitors_for_team two_teams_api third_variant_api ''OPS'' =
     (Inr (JList [JDict [(''id'', JInt 5), (''name'', JStr ''cpu'')]]),
      [''team:ops-core'', ''team:'' @ [CHR 0x22] @ ''ops-core'' @ [CHR 0x22],
       ''teams:ops-core''])"
proof -
  let ?pre = "[''team:ops-core'', ''team:'' @ [CHR 0x22] @ ''ops-core'' @ [CHR 0x22]]"
  let ?post = "[''teams:'' @ [CHR 0x22] @ ''ops-core'' @ [CHR 0x22]]"
  let ?found = "[JDict [(''id'', JInt 5), (''name'', JStr ''cpu'')]]"
  have v: "variants (JStr ''ops-core'') = ?pre @ ''teams:ops-core'' # ?post"
    by (simp add: variants_def)
  have s: "\<forall>p\<in>set ?pre. skipped third_variant_api p"
    by (simp add: third_variant_api_def eval_search)
  have a: "attempt third_variant_api ''teams:ops-core'' = Inr ?found"
    by (simp add: third_variant_api_def eval_search)
  have n: "?found \<noteq> []" by simp
  from find_monitors_for_team_first_success [OF resolve_ops v s a n]
  show ?thesis by simp
qed

text \<open>
  C2, as amended. In the loop over the variants, a failure of the search request that is
  not an \<open>HTTPError\<close> (a connection error, a timeout) leaves the function at once
  and no further query is sent; an \<open>HTTPError\<close> of any status, client error or
  server error alike, is caught and the next query is sent.
\<close>

theorem find_monitors_for_team_non_http_error:
  assumes "extract_team_handle team_api team_input = Inr handle"
    and "variants handle = pre @ q # post"
    and "\<forall>p\<in>set pre. skipped datadog_get p"
  shows "(datadog_get q = Inl e \<and> http_error e = None \<longrightarrow>
            find_monitors_for_team team_api datadog_get team_input = (Inl e, pre @ [q]))
         \<and> (datadog_get q = Inl (HTTPError status msg) \<and> post \<noteq> [] \<longrightarrow>
              (\<exists>more. snd (find_monitors_for_team team_api datadog_get team_input) =
                        pre @ q # hd post # more))"
proof -
  from variant_loop_skipped [OF assms(3), of "q # post" None] obtain l where
    loop: "variant_loop datadog_get (pre @ q # post) None =
       (fst (variant_loop datadog_get (q # post) l),
        pre @ snd (variant_loop datadog_get (q # post) l))"
    by blast
  have propagate: "find_monitors_for_team team_api datadog_get team_input = (Inl e, pre @ [q])"
    if "datadog_get q = Inl e" and "http_error e = None"
  proof -
    from that have "variant_loop datadog_get (q # post) l = (Raise e, [q])"
      by (simp add: attempt_raises)
    with loop assms(1,2) show ?thesis
      by (simp add: find_monitors_for_team_def)
  qed
  have recover: "\<exists>more. snd (find_monitors_for_team team_api datadog_get team_input) =
                        pre @ q # hd post # more"
    if "datadog_get q = Inl (HTTPError status msg)" and "post \<noteq> []"
  proof -
    from that(2) obtain p ps where post: "post = p # ps" by (cases post) auto
    from variant_loop_requests_head [of datadog_get p ps "Some (status, msg)"]
    obtain more where "snd (variant_loop datadog_get (p # ps) (Some (status, msg))) = p # more"
      by blast
    with that(1) post
    have "snd (variant_loop datadog_get (q # post) l) = q # p # more"
      by (simp add: attempt_raises Let_def del: variant_loop.simps(2))
        (simp add: attempt_raises Let_def)
    with loop assms(1,2) post show ?thesis
      by (simp add: find_monitors_for_team_def Let_def)
  qed
  from propagate recover show ?thesis by blast
qed

text \<open>
  A time-out at the second query leaves the function after two queries; a status 500 at
  the first query is followed by the second query.
\<close>

theorem find_monitors_for_team_non_http_error_witness:
  "find_monitors_for_team two_teams_api timeout_api ''OPS'' =
     (Inl (RequestError ''read timed out''),
      [''team:ops-core'', ''team:'' @ [CHR 0x22] @ ''ops-core'' @ [CHR 0x22]])
   \<and> (\<exists>more. snd (find_monitors_for_team two_teams_api server_error_api ''OPS'') =
         ''team:ops-core'' # (''team:'' @ [CHR 0x22] @ ''ops-core'' @ [CHR 0x22]) # more)"
proof -
  let ?q2 = "''team:'' @ [CHR 0x22] @ ''ops-core'' @ [CHR 0x22]"
  let ?post = "[''teams:ops-core'', ''teams:'' @ [CHR 0x22] @ ''ops-core'' @ [CHR 0x22]]"
  have v: "variants (JStr ''ops-core'') = [''team:ops-core''] @ ?q2 # ?post"
    by (simp add: variants_def)
  have s: "\<forall>p\<in>set [''team:ops-core'']. skipped timeout_api p"
    by (simp add: timeout_api_def eval_search)
  have r: "timeout_api ?q2 = Inl (RequestError ''read timed out'')
           \<and> http_error (RequestError ''read timed out'') = None"
    by (simp add: timeout_api_def)
  from find_monitors_for_team_non_http_error [OF resolve_ops v s,
      of "RequestError ''read timed out''" 0 "''''"] r
  have first: "find_monitors_for_team two_teams_api timeout_api ''OPS'' =
     (Inl (RequestError ''read timed out''), [''team:ops-core'', ?q2])"
    by simp
  have v0: "variants (JStr ''ops-core'') = [] @ ''team:ops-core'' # (?q2 # ?post)"
    by (simp add: variants_def)
  have s0: "\<forall>p\<in>set []. skipped server_error_api p"
    by simp
  have r0: "server_error_api ''team:ops-core'' =
              Inl (HTTPError 500 ''500 Server Error: Internal Server Error'')
            \<and> ?q2 # ?post \<noteq> []"
    by (simp add: server_error_api_def)
  from find_monitors_for_team_non_http_error [OF resolve_ops v0 s0,
      of "RequestError ''''" 500 "''500 Server Error: Internal Server Error''"] r0
  have second: "\<exists>more. snd (find_monitors_for_team two_teams_api server_error_api ''OPS'') =
         ''team:ops-core'' # ?q2 # more"
    by simp
  from first second show ?thesis by blast
qed

text \<open>
  C2 as stated fails when the first query is answered with status 500: the error does not
  leave the function, the second query is sent and its monitors are returned.
\<close>

theorem find_monitors_for_team_server_error_counterexample:
  "server_error_api ''team:ops-core'' = Inl (HTTPError 500 ''500 Server Error: Internal Server Error'')
   \<and> find_monitors_for_team two_teams_api server_error_api ''OPS'' =
       (Inr (JList [JDict [(''id'', JInt 5), (''name'', JStr ''cpu'')]]),
        [''team:ops-core'', ''team:'' @ [CHR 0x22] @ ''ops-core'' @ [CHR 0x22]])
   \<and> find_monitors_for_team two_teams_api server_error_api ''OPS'' \<noteq>
       (Inl (HTTPError 500 ''500 Server Error: Internal Server Error''), [''team:ops-core''])"
  by (simp add: find_monitors_for_team_def resolve_ops variants_def server_error_api_def
      eval_search Let_def)

text \<open>
  C3. When every one of the four queries is answered and gives an empty filtered list,
  \<open>find_monitors_for_team\<close> raises nothing: it has sent the four queries and
  returns \<open>None\<close>, which is no exception.
\<close>

theorem find_monitors_for_team_no_matches:
  assumes "extract_team_handle team_api team_input = Inr handle"
    and "\<forall>q\<in>set (variants handle). attempt datadog_get q = Inr []"
  shows "find_monitors_for_team team_api datadog_get team_input = (Inr JNull, variants handle)
         \<and> (\<forall>e. fst (find_monitors_for_team team_api datadog_get team_input) \<noteq> Inl e)"
  using assms(1) variant_loop_all_empty [OF assms(2), of None]
  by (simp add: find_monitors_for_team_def)

text \<open>An endpoint that answers every query with an empty list of monitors.\<close>

theorem find_monitors_for_team_no_matches_witness:
  "find_monitors_for_team two_teams_api empty_search_api ''OPS'' =
     (Inr JNull,
      [''team:ops-core'', ''team:'' @ [CHR 0x22] @ ''ops-core'' @ [CHR 0x22],
       ''teams:ops-core'', ''teams:'' @ [CHR 0x22] @ ''ops-core'' @ [CHR 0x22]])"
proof -
  have e: "\<forall>q\<in>set (variants (JStr ''ops-core'')). attempt empty_search_api q = Inr []"
    by (simp add: empty_search_api_def eval_search)
  from find_monitors_for_team_no_matches [OF resolve_ops e]
  show ?thesis by (simp add: variants_def)
qed

text \<open>
  C4. When every query was rejected with an \<open>HTTPError\<close> or gave an empty list, and
  \<open>q\<close> is the last one that was rejected, \<open>find_monitors_for_team\<close> has sent the
  four queries and raises a \<open>RuntimeError\<close> whose message holds the keyword as
  given, the resolved handle and the text of the error of \<open>q\<close>.
\<close>

theorem find_monitors_for_team_aggregated_failure:
  assumes "extract_team_handle team_api team_input = Inr handle"
    and "variants handle = pre @ q # post"
    and "\<forall>p\<in>set pre. skipped datadog_get p"
    and "attempt datadog_get q = Inl (HTTPError status msg)"
    and "\<forall>p\<in>set post. attempt datadog_get p = Inr []"
  shows "find_monitors_for_team team_api datadog_get team_input =
           (Inl (RuntimeError
              (''Failed to search monitors for team '' @ [CHR 0x27] @ team_input @ [CHR 0x27]
               @ '' (resolved handle '' @ [CHR 0x27] @ py_str handle @ [CHR 0x27] @ ''). ''
               @ ''Last error: '' @ msg)),
            variants handle)"
proof -
  from variant_loop_skipped [OF assms(3), of "q # post" None] obtain l where
    "variant_loop datadog_get (pre @ q # post) None =
       (fst (variant_loop datadog_get (q # post) l),
        pre @ snd (variant_loop datadog_get (q # post) l))"
    by blast
  moreover have "variant_loop datadog_get (q # post) l = (Exhausted (Some (status, msg)), q # post)"
    using assms(4) variant_loop_all_empty [OF assms(5), of "Some (status, msg)"]
    by (simp add: Let_def)
  ultimately have "variant_loop datadog_get (variants handle) None =
      (Exhausted (Some (status, msg)), variants handle)"
    using assms(2) by simp
  with assms(1) show ?thesis
    by (simp add: find_monitors_for_team_def failure_message_def)
qed

text \<open>
  The first three queries are rejected and the fourth finds nothing: the message ends
  with the text of the third rejection.
\<close>

theorem find_monitors_for_team_aggregated_failure_witness:
  "find_monitors_for_team two_teams_api rejecting_api ''OPS'' =
     (Inl (RuntimeError
        (''Failed to search monitors for team '' @ [CHR 0x27] @ ''OPS'' @ [CHR 0x27]
         @ '' (resolved handle '' @ [CHR 0x27] @ ''ops-core'' @ [CHR 0x27] @ ''). ''
         @ ''Last error: 400 Client Error: unknown field'')),
      [''team:ops-core'', ''team:'' @ [CHR 0x22] @ ''ops-core'' @ [CHR 0x22],
       ''teams:ops-core'', ''teams:'' @ [CHR 0x22] @ ''ops-core'' @ [CHR 0x22]])"
proof -
  let ?pre = "[''team:ops-core'', ''team:'' @ [CHR 0x22] @ ''ops-core'' @ [CHR 0x22]]"
  let ?post = "[''teams:'' @ [CHR 0x22] @ ''ops-core'' @ [CHR 0x22]]"
  have v: "variants (JStr ''ops-core'') = ?pre @ ''teams:ops-core'' # ?post"
    by (simp add: variants_def)
  have s: "\<forall>p\<in>set ?pre. skipped rejecting_api p"
    by (simp add: rejecting_api_def eval_search)
  have a: "attempt rejecting_api ''teams:ops-core'' =
             Inl (HTTPError 400 ''400 Client Error: unknown field'')"
    by (simp add: rejecting_api_def eval_search)
  have e: "\<forall>p\<in>set ?post. attempt rejecting_api p = Inr []"
    by (simp add: rejecting_api_def eval_search)
  from find_monitors_for_team_aggregated_failure [OF resolve_ops v s a e]
  show ?thesis by (simp add: variants_def)
qed

section \<open>Properties of the paginated fetcher\<close>

lemma page_tests_cases:
  assumes "page_tests get_page page_size page = Some tests"
  obtains body where "get_page page page_size = Inr body"
    "py_get (py_or body (JDict [])) ''tests'' (JList []) = Inr (JList tests)"
  using assms
  by (auto simp add: page_tests_def split: sum.splits json.splits)

lemma fetch_loop_full_page:
  assumes "page_tests get_page page_size page = Some tests"
    and "length tests = page_size" and "0 < page_size"
  shows "fetch_loop get_page page_size page all_tests requested =
           fetch_loop get_page page_size (page + 1) (all_tests @ tests) (requested @ [page])"
proof -
  from assms(1) obtain body where b: "get_page page page_size = Inr body"
    "py_get (py_or body (JDict [])) ''tests'' (JList []) = Inr (JList tests)"
    by (rule page_tests_cases)
  from assms(2,3) have "tests \<noteq> []" by auto
  with b assms(2) show ?thesis
    by (subst fetch_loop.simps) simp
qed

lemma fetch_loop_short_page:
  assumes "page_tests get_page page_size page = Some tests"
    and "length tests < page_size"
  shows "fetch_loop get_page page_size page all_tests requested =
           Some (Inr (all_tests @ tests), requested @ [page])"
proof -
  from assms(1) obtain body where b: "get_page page page_size = Inr body"
    "py_get (py_or body (JDict [])) ''tests'' (JList []) = Inr (JList tests)"
    by (rule page_tests_cases)
  with assms(2) show ?thesis
    by (subst fetch_loop.simps) simp
qed

lemma fetch_loop_pages:
  assumes "0 < page_size"
    and "\<forall>i\<le>n. page_tests get_page page_size (page + i) = Some (pages (page + i))"
    and "\<forall>i<n. length (pages (page + i)) = page_size"
    and "length (pages (page + n)) < page_size"
  shows "fetch_loop get_page page_size page all_tests requested =
           Some (Inr (all_tests @ concat (map pages [page..<page + Suc n])),
                 requested @ [page..<page + Suc n])"
  using assms(2-4)
proof (induction n arbitrary: page all_tests requested)
  case 0
  then show ?case
    by (simp add: fetch_loop_short_page)
next
  case (Suc n)
  from Suc.prems(1) have here: "page_tests get_page page_size page = Some (pages page)"
    by (metis add.right_neutral le0)
  from Suc.prems(2) have full: "length (pages page) = page_size"
    by (metis add.right_neutral zero_less_Suc)
  have a: "\<forall>i\<le>n. page_tests get_page page_size (Suc page + i) = Some (pages (Suc page + i))"
    using Suc.prems(1) by (metis Suc_le_mono add_Suc_shift)
  have b: "\<forall>i<n. length (pages (Suc page + i)) = page_size"
    using Suc.prems(2) by (metis Suc_less_eq add_Suc_shift)
  have c: "length (pages (Suc page + n)) < page_size"
    using Suc.prems(3) by simp
  have "fetch_loop get_page page_size page all_tests requested =
      fetch_loop get_page page_size (Suc page) (all_tests @ pages page) (requested @ [page])"
    using fetch_loop_full_page [OF here full assms(1)] by simp
  also have "\<dots> = Some (Inr ((all_tests @ pages page) @ concat (map pages [Suc page..<Suc page + Suc n])),
                 (requested @ [page]) @ [Suc page..<Suc page + Suc n])"
    by (rule Suc.IH [OF a b c])
  also have "\<dots> = Some (Inr (all_tests @ concat (map pages [page..<page + Suc (Suc n)])),
                 requested @ [page..<page + Suc (Suc n)])"
    by (simp add: upt_rec [of page] del: upt_Suc)
  finally show ?case .
qed

lemma length_concat_pages:
  "\<forall>i<n. length (pages i) = k \<Longrightarrow> length (concat (map pages [0..<n])) = k * n"
  by (induction n) (simp_all add: )

lemma fetch_loop_endless:
  assumes "0 < page_size"
    and "\<forall>i. \<exists>tests. page_tests get_page page_size i = Some tests \<and> length tests = page_size"
  shows "fetch_loop get_page page_size page all_tests requested = None"
proof (rule ccontr)
  assume "fetch_loop get_page page_size page all_tests requested \<noteq> None"
  then obtain r where some: "fetch_loop get_page page_size page all_tests requested = Some r"
    by auto
  have "\<not> (0 < page_size \<and>
      (\<forall>i. \<exists>tests. page_tests get_page page_size i = Some tests \<and> length tests = page_size))"
  proof (rule fetch_loop.raw_induct [where P = "\<lambda>gp ps p a l r.
      \<not> (0 < ps \<and> (\<forall>i. \<exists>tests. page_tests gp ps i = Some tests \<and> length tests = ps))",
      OF _ some])
    fix fetch :: "(nat \<Rightarrow> nat \<Rightarrow> exn + json) \<Rightarrow> nat \<Rightarrow> nat \<Rightarrow> json list \<Rightarrow> nat list
       \<Rightarrow> ((exn + json list) \<times> nat list) option"
    fix gp ps p a l y
    assume ih: "\<And>gp ps p a l y. fetch gp ps p a l = Some y \<Longrightarrow>
      \<not> (0 < ps \<and> (\<forall>i. \<exists>tests. page_tests gp ps i = Some tests \<and> length tests = ps))"
    assume body: "(case gp p ps of
        Inl e \<Rightarrow> Some (Inl e, l @ [p])
      | Inr body \<Rightarrow>
          (case py_get (py_or body (JDict [])) ''tests'' (JList []) of
             Inl e \<Rightarrow> Some (Inl e, l @ [p])
           | Inr tests \<Rightarrow>
               if \<not> truthy tests then Some (Inr a, l @ [p])
               else
                 (case py_iter tests of
                    Inl e \<Rightarrow> Some (Inl e, l @ [p])
                  | Inr items \<Rightarrow>
                      (case py_len tests of
                         Inl e \<Rightarrow> Some (Inl e, l @ [p])
                       | Inr n \<Rightarrow>
                           if n < ps
                           then Some (Inr (a @ items), l @ [p])
                           else fetch gp ps (p + 1) (a @ items) (l @ [p]))))) = Some y"
    show "\<not> (0 < ps \<and> (\<forall>i. \<exists>tests. page_tests gp ps i = Some tests \<and> length tests = ps))"
    proof
      assume full: "0 < ps \<and> (\<forall>i. \<exists>tests. page_tests gp ps i = Some tests \<and> length tests = ps)"
      then obtain tests where t: "page_tests gp ps p = Some tests" "length tests = ps"
        by blast
      from t(1) obtain b where b: "gp p ps = Inr b"
        "py_get (py_or b (JDict [])) ''tests'' (JList []) = Inr (JList tests)"
        by (rule page_tests_cases)
      from t(2) full have "tests \<noteq> []" by auto
      with body b t(2) have "fetch gp ps (p + 1) (a @ tests) (l @ [p]) = Some y"
        by simp
      from ih [OF this] full show False by blast
    qed
  qed
  with assms show False by blast
qed

lemma page_tests_listing_237:
  "page_tests listing_237 page_size i =
     Some (replicate (if i < 2 then 100 else if i = 2 then 37 else 0) sample_test)"
  by (simp add: page_tests_def listing_237_def py_or_def)

lemma page_tests_listing_300:
  "page_tests listing_300 page_size i =
     Some (replicate (if i < 3 then 100 else 0) sample_test)"
  by (simp add: page_tests_def listing_300_def py_or_def)

lemma page_tests_endless_listing:
  "page_tests endless_listing page_size i = Some (replicate 100 sample_test)"
  by (simp add: page_tests_def endless_listing_def py_or_def)

text \<open>
  C8. \<open>get_synthetic_tests\<close> requests the pages 0, 1, 2, ... with the page size 100.
  When the pages before page \<open>n\<close> hold exactly 100 tests each and page \<open>n\<close> holds
  fewer than 100, none included, it requests exactly the pages 0 to \<open>n\<close> and returns
  the tests of all of them, those of page \<open>n\<close> included: \<open>100 * n\<close> tests and those
  of page \<open>n\<close>. It stops at no full page: when every page holds exactly 100 tests it
  never returns.
\<close>

theorem get_synthetic_tests_pagination:
  "((\<forall>i\<le>n. page_tests get_page 100 i = Some (pages i))
      \<and> (\<forall>i<n. length (pages i) = 100)
      \<and> length (pages n) < 100
    \<longrightarrow> get_synthetic_tests get_page =
          Some (Inr (concat (map pages [0..<Suc n])), [0..<Suc n])
        \<and> length (concat (map pages [0..<Suc n])) = 100 * n + length (pages n))
   \<and> ((\<forall>i. \<exists>tests. page_tests get_page 100 i = Some tests \<and> length tests = 100)
    \<longrightarrow> get_synthetic_tests get_page = None)"
proof (intro conjI impI)
  assume a: "(\<forall>i\<le>n. page_tests get_page 100 i = Some (pages i))
      \<and> (\<forall>i<n. length (pages i) = 100) \<and> length (pages n) < 100"
  have "fetch_loop get_page 100 0 [] [] =
      Some (Inr ([] @ concat (map pages [0..<0 + Suc n])), [] @ [0..<0 + Suc n])"
    by (rule fetch_loop_pages) (use a in simp_all)
  then show "get_synthetic_tests get_page =
      Some (Inr (concat (map pages [0..<Suc n])), [0..<Suc n])"
    by (simp add: get_synthetic_tests_def)
  from a have "length (concat (map pages [0..<n])) = 100 * n"
    by (simp add: length_concat_pages)
  then show "length (concat (map pages [0..<Suc n])) = 100 * n + length (pages n)"
    by simp
next
  assume "\<forall>i. \<exists>tests. page_tests get_page 100 i = Some tests \<and> length tests = 100"
  then show "get_synthetic_tests get_page = None"
    by (simp add: get_synthetic_tests_def fetch_loop_endless)
qed

text \<open>
  Pages of 100, 100 and 37 tests: three requests and 237 tests. Pages of 100, 100, 100
  and 0 tests: four requests and 300 tests. Pages of 100 tests without end: no result.
\<close>

theorem get_synthetic_tests_pagination_witness:
  "get_synthetic_tests listing_237 = Some (Inr (replicate 237 sample_test), [0, 1, 2])
   \<and> length (replicate 237 sample_test) = 237
   \<and> get_synthetic_tests listing_300 = Some (Inr (replicate 300 sample_test), [0, 1, 2, 3])
   \<and> length (replicate 300 sample_test) = 300
   \<and> get_synthetic_tests endless_listing = None"
proof -
  let ?p237 = "\<lambda>i::nat. replicate (if i < 2 then 100 else if i = 2 then 37 else 0) sample_test"
  let ?p300 = "\<lambda>i::nat. replicate (if i < 3 then 100 else 0) sample_test"
  have u: "[0..<Suc 2] = [0, 1, 2]" "[0..<Suc 3] = [0, 1, 2, 3]"
    by (simp_all add: upt_rec)
  have h237: "(\<forall>i\<le>2. page_tests listing_237 100 i = Some (?p237 i))
      \<and> (\<forall>i<2. length (?p237 i) = 100) \<and> length (?p237 2) < 100"
    by (simp add: page_tests_listing_237)
  have c237: "concat (map ?p237 [0, 1, 2]) = replicate 237 sample_test"
    by (simp add: replicate_add [symmetric])
  have h300: "(\<forall>i\<le>3. page_tests listing_300 100 i = Some (?p300 i))
      \<and> (\<forall>i<3. length (?p300 i) = 100) \<and> length (?p300 3) < 100"
    by (simp add: page_tests_listing_300)
  have c300: "concat (map ?p300 [0, 1, 2, 3]) = replicate 300 sample_test"
    by (simp add: replicate_add [symmetric])
  have e: "\<forall>i. \<exists>tests. page_tests endless_listing 100 i = Some tests \<and> length tests = 100"
    by (simp add: page_tests_endless_listing)
  from get_synthetic_tests_pagination [of 2 listing_237 ?p237] h237
  have "get_synthetic_tests listing_237 = Some (Inr (concat (map ?p237 [0..<Suc 2])), [0..<Suc 2])"
    by blast
  then have a: "get_synthetic_tests listing_237 = Some (Inr (replicate 237 sample_test), [0, 1, 2])"
    by (simp only: u c237)
  from get_synthetic_tests_pagination [of 3 listing_300 ?p300] h300
  have "get_synthetic_tests listing_300 = Some (Inr (concat (map ?p300 [0..<Suc 3])), [0..<Suc 3])"
    by blast
  then have b: "get_synthetic_tests listing_300 = Some (Inr (replicate 300 sample_test), [0, 1, 2, 3])"
    by (simp only: u c300)
  from get_synthetic_tests_pagination [of 0 endless_listing "\<lambda>i. []"] e
  have c: "get_synthetic_tests endless_listing = None"
    by blast
  from a b c show ?thesis by simp
qed

section \<open>Properties of the record normalizer\<close>


























end
